theory Spec2Isabelle
  imports Complex_Main "HOL-Library.Multiset"
begin

section \<open>Data model of the TherapySession component\<close>

text \<open>
  The component under study is \<^verbatim>\<open>TherapySession\<close> (React, TypeScript). Its state lives in
  \<^verbatim>\<open>useState\<close> cells; every handler is modelled as a function from the state of the render
  it was created in to the state after all its updates have been applied. The answers of
  the backend and of the user (\<^verbatim>\<open>window.confirm\<close>) are inputs of the handlers.

  A TypeScript \<^verbatim>\<open>number\<close> that holds a score is a double, and a double is the
  \<^typ>\<open>real\<close> it stands for; there is no NaN (scores arrive as JSON numbers). The handlers
  are given first with the arithmetic of the source taken exactly and with every read on
  the state they update, which is what the properties of a single write and of what a
  handler leaves alone need. The attempt handler is then given once more with the closure
  it runs in and with every operation rounded, for the properties that depend on the
  computed mean and on the classified tier.

  The three counters of the progress object start at 1, 10 and 0 and only change by
  \<^verbatim>\<open>+ 1\<close> or by a reset to these constants, so they are modelled as \<^typ>\<open>nat\<close>.
\<close>

datatype difficulty = Easy | Medium | Hard

text \<open>The order of the tiers: easy, then medium, then hard.\<close>

fun tier_rank :: "difficulty \<Rightarrow> nat" where
  "tier_rank Easy = 0"
| "tier_rank Medium = 1"
| "tier_rank Hard = 2"

text \<open>\<^verbatim>\<open>interface Sentence\<close>; the fields \<^verbatim>\<open>id\<close>, \<^verbatim>\<open>text\<close>, \<^verbatim>\<open>language\<close>, \<^verbatim>\<open>difficulty\<close> and
  \<^verbatim>\<open>category\<close> carry the suffix \<open>_s\<close>.\<close>

record Sentence =
  id_s :: string
  text_s :: string
  language_s :: string
  difficulty_s :: difficulty
  category_s :: string
  targetWords :: "string list"

record WordCorrection =
  word :: string
  position :: int
  issue :: string
  correction :: string
  pronunciation_tip :: string

text \<open>\<^verbatim>\<open>interface SessionResult\<close>; its field \<^verbatim>\<open>accuracy\<close> is \<open>accuracy_r\<close> here, since the
  progress object has a field of the same name.\<close>

record SessionResult =
  transcription :: string
  accuracy_r :: real
  wab_score :: real
  severity :: string
  feedback :: string
  detailed_errors :: "string list"
  practice_suggestions :: "string list"
  feedback_audio_url :: "string option"
  word_corrections :: "WordCorrection list option"

text \<open>The object held by \<^verbatim>\<open>sessionProgress\<close>.\<close>

record SessionProgress =
  current :: nat
  total :: nat
  completed :: nat
  accuracy :: real
  totalWabScore :: real

text \<open>The state cells of the component, and two fields that record its visible effects:
  the messages shown with \<^verbatim>\<open>alert\<close> and whether \<^verbatim>\<open>navigate('/patient/dashboard')\<close> ran.\<close>

record state =
  sessionId :: "string option"
  sessionLanguage :: string
  isRecording :: bool
  isProcessing :: bool
  isLoadingSentences :: bool
  currentSentence :: "Sentence option"
  sessionResult :: "SessionResult option"
  availableSentences :: "Sentence list"
  sentenceIndex :: nat
  sessionProgress :: SessionProgress
  currentDifficulty :: difficulty
  userWabScore :: real
  alerts :: "string list"
  navigated :: bool

text \<open>JavaScript truthiness of a \<^verbatim>\<open>string | null\<close>: null and the empty string are falsy.\<close>

fun truthy :: "string option \<Rightarrow> bool" where
  "truthy None = False"
| "truthy (Some s) = (s \<noteq> [])"

section \<open>The difficulty classifier\<close>

text \<open>
  \<^verbatim>\<open>
  const getDifficultyFromWabScore = (wabScore: number) => {
    if (wabScore >= 76) return 'hard';
    if (wabScore >= 51) return 'medium';
    return 'easy';
  };
  \<close>
\<close>

definition getDifficultyFromWabScore :: "real \<Rightarrow> difficulty" where
  "getDifficultyFromWabScore wabScore =
     (if wabScore \<ge> 76 then Hard
      else if wabScore \<ge> 51 then Medium
      else Easy)"

section \<open>Answers of the collaborators\<close>

text \<open>An awaited call either rejects (the \<^verbatim>\<open>catch\<close> branch runs) or resolves with a value.\<close>

datatype 'a outcome = Rejected | Resolved 'a

text \<open>What the handlers read of the answer of \<^verbatim>\<open>sessionAPI.startSession\<close>. The source casts
  \<^verbatim>\<open>current_difficulty\<close> to the three tiers; an absent or empty value is \<open>None\<close>.\<close>

record StartResponse =
  session_id :: "string option"
  current_difficulty :: "difficulty option"

text \<open>What the handlers read of the answer of \<^verbatim>\<open>sessionAPI.completeSession\<close>.\<close>

record CompletionResult =
  next_difficulty :: "difficulty option"
  progression_message :: "string option"

text \<open>Everything \<^verbatim>\<open>nextSentence\<close> may await: the completion call, the answer of the user to
  \<^verbatim>\<open>window.confirm\<close>, the start of the new session and the sentence request.\<close>

record nextSentence_env =
  complete :: "CompletionResult outcome"
  confirm :: bool
  start :: "StartResponse outcome"
  load :: "Sentence list outcome"

section \<open>Session start and sentence loading\<close>

definition initialProgress :: SessionProgress where
  "initialProgress = \<lparr>current = 1, total = 10, completed = 0, accuracy = 0, totalWabScore = 0\<rparr>"

text \<open>The state at mount. \<^verbatim>\<open>useState(user?.wabScore || 50)\<close>: an absent or zero score
  gives 50.\<close>

definition initialState :: "string \<Rightarrow> real option \<Rightarrow> state" where
  "initialState contextLanguage wabScore =
     \<lparr>sessionId = None,
      sessionLanguage = contextLanguage,
      isRecording = False,
      isProcessing = False,
      isLoadingSentences = False,
      currentSentence = None,
      sessionResult = None,
      availableSentences = [],
      sentenceIndex = 0,
      sessionProgress = initialProgress,
      currentDifficulty = Easy,
      userWabScore = (case wabScore of None \<Rightarrow> 50 | Some w \<Rightarrow> if w = 0 then 50 else w),
      alerts = [],
      navigated = False\<rparr>"

text \<open>
  \<^verbatim>\<open>initializeSession\<close>: the session id of the answer is stored and the tier of the answer,
  when there is one, replaces the current tier; a failed call switches to the offline
  session.
\<close>

definition initializeSession :: "StartResponse outcome \<Rightarrow> state \<Rightarrow> state" where
  "initializeSession out st =
     (case out of
        Resolved response \<Rightarrow>
          (let st1 = st\<lparr>sessionId := session_id response\<rparr>
           in case current_difficulty response of
                Some d \<Rightarrow> st1\<lparr>currentDifficulty := d\<rparr>
              | None \<Rightarrow> st1)
      | Rejected \<Rightarrow> st\<lparr>sessionId := Some ''offline-session''\<rparr>)"

definition mockSentences :: "string \<Rightarrow> difficulty \<Rightarrow> Sentence list" where
  "mockSentences lang d =
     (case d of
        Easy \<Rightarrow>
          [\<lparr>id_s = ''1'', text_s = ''Hello'', language_s = lang, difficulty_s = Easy,
            category_s = ''greeting'', targetWords = [''Hello'']\<rparr>,
           \<lparr>id_s = ''2'', text_s = ''Water'', language_s = lang, difficulty_s = Easy,
            category_s = ''basic'', targetWords = [''Water'']\<rparr>]
      | Medium \<Rightarrow>
          [\<lparr>id_s = ''3'', text_s = ''I am hungry'', language_s = lang, difficulty_s = Medium,
            category_s = ''feeling'', targetWords = [''hungry'']\<rparr>]
      | Hard \<Rightarrow>
          [\<lparr>id_s = ''4'', text_s = ''I need medical assistance'', language_s = lang,
            difficulty_s = Hard, category_s = ''medical'',
            targetWords = [''medical'', ''assistance'']\<rparr>])"

text \<open>
  \<^verbatim>\<open>loadFallbackSentences\<close> reads the language and the tier of the render its closure belongs
  to (\<open>snap\<close>) and updates the state \<open>st\<close>.
\<close>

definition loadFallbackSentences :: "state \<Rightarrow> state \<Rightarrow> state" where
  "loadFallbackSentences snap st =
     (let ms = mockSentences (sessionLanguage snap) (currentDifficulty snap);
          st1 = st\<lparr>availableSentences := ms\<rparr>
      in if length ms > 0 then st1\<lparr>currentSentence := Some (ms ! 0)\<rparr> else st1)"

text \<open>
  \<^verbatim>\<open>loadSentencesFromAPI(difficultyOverride?)\<close>. The tier asked for only shapes the request;
  the answer is the input \<open>out\<close>. The \<^verbatim>\<open>finally\<close> block clears the loading flag.
\<close>

definition loadSentencesFromAPI ::
  "state \<Rightarrow> difficulty option \<Rightarrow> Sentence list outcome \<Rightarrow> state \<Rightarrow> state" where
  "loadSentencesFromAPI snap difficultyOverride out st =
     (let st1 =
        (case out of
           Resolved sentences \<Rightarrow>
             (let st2 = st\<lparr>availableSentences := sentences, sentenceIndex := 0\<rparr>
              in if length sentences > 0
                 then st2\<lparr>currentSentence := Some (sentences ! 0)\<rparr> else st2)
         | Rejected \<Rightarrow> loadFallbackSentences snap st)
      in st1\<lparr>isLoadingSentences := False\<rparr>)"

section \<open>Processing one attempt\<close>

text \<open>
  The updater passed to \<^verbatim>\<open>setSessionProgress\<close> in \<^verbatim>\<open>processAudio\<close>:
  \<^verbatim>\<open>
  prev => ({ ...prev,
    completed: prev.completed + 1,
    accuracy: (prev.accuracy * prev.completed + result.accuracy) / (prev.completed + 1),
    totalWabScore: prev.totalWabScore + newWabScore })
  \<close>
\<close>

definition aggregate :: "SessionResult \<Rightarrow> SessionProgress \<Rightarrow> SessionProgress" where
  "aggregate result prev =
     prev\<lparr>completed := completed prev + 1,
          accuracy := (accuracy prev * real (completed prev) + accuracy_r result)
                      / real (completed prev + 1),
          totalWabScore := totalWabScore prev + wab_score result\<rparr>"

text \<open>The result shown when the scoring call fails.\<close>

definition errorResult :: SessionResult where
  "errorResult =
     \<lparr>transcription = ''[Error processing audio]'',
      accuracy_r = 0,
      wab_score = 0,
      severity = ''Unable to assess'',
      feedback = ''Error processing audio. Please check your microphone and try again.'',
      detailed_errors = [''Audio processing failed'', ''Please ensure microphone is working''],
      practice_suggestions = [''Check microphone permissions'', ''Try recording again''],
      feedback_audio_url = None,
      word_corrections = None\<rparr>"

definition processAudio_alert :: string where
  "processAudio_alert =
     ''Error processing audio. Please check your microphone and internet connection, then try again.''"

text \<open>
  \<^verbatim>\<open>processAudio\<close>. Without a current sentence or a session id it returns at once. When the
  scoring call resolves, the result is stored, the progress is aggregated and the tier
  classified from the average WAB score replaces the current tier where it differs. When
  the call rejects, the error result is stored and an alert is shown.
\<close>

definition processAudio :: "SessionResult outcome \<Rightarrow> state \<Rightarrow> state" where
  "processAudio out st =
     (if currentSentence st = None \<or> \<not> truthy (sessionId st) then st
      else
        (case out of
           Resolved result \<Rightarrow>
             (let newWabScore = wab_score result;
                  avgWabScore = (totalWabScore (sessionProgress st) + newWabScore)
                                / real (completed (sessionProgress st) + 1);
                  newDifficulty = getDifficultyFromWabScore avgWabScore
              in st\<lparr>sessionResult := Some result,
                    userWabScore := newWabScore,
                    sessionProgress := aggregate result (sessionProgress st),
                    currentDifficulty :=
                      (if newDifficulty \<noteq> currentDifficulty st then newDifficulty
                       else currentDifficulty st),
                    isProcessing := False\<rparr>)
         | Rejected \<Rightarrow>
             st\<lparr>sessionResult := Some errorResult,
                alerts := alerts st @ [processAudio_alert],
                isProcessing := False\<rparr>))"

section \<open>Advancing and completing the session\<close>

definition navigate :: "state \<Rightarrow> state" where
  "navigate st = st\<lparr>navigated := True\<rparr>"

text \<open>The branch of \<^verbatim>\<open>nextSentence\<close> taken once the user has confirmed the tier \<open>nd\<close> reported
  by the completion call: the tier is set, the progress is reset, a new session is
  initialised and the sentences are loaded; the handler returns without navigating.\<close>

definition acceptProgression :: "nextSentence_env \<Rightarrow> difficulty \<Rightarrow> state \<Rightarrow> state" where
  "acceptProgression env nd st =
     (let st1 = st\<lparr>currentDifficulty := nd,
                    sessionProgress :=
                      \<lparr>current = 1, total = 10, completed = 0, accuracy = 0, totalWabScore = 0\<rparr>,
                    currentSentence := None,
                    sessionResult := None\<rparr>;
          st2 = initializeSession (start env) st1
      in loadSentencesFromAPI st (Some nd) (load env) st2)"

text \<open>
  \<^verbatim>\<open>nextSentence\<close>. Below the quota the counter advances and the next sentence is shown
  (the sentences are requested again when the batch is used up). At the quota the
  session is completed on the backend; a reported tier that differs from the current one
  is offered to the user with \<^verbatim>\<open>window.confirm\<close>. Every path but the accepted offer ends
  with the navigation to the dashboard.
\<close>

definition nextSentence :: "nextSentence_env \<Rightarrow> state \<Rightarrow> state" where
  "nextSentence env st =
     (if current (sessionProgress st) < total (sessionProgress st) then
        (let st1 = st\<lparr>sessionProgress :=
                        (sessionProgress st)\<lparr>current := current (sessionProgress st) + 1\<rparr>\<rparr>;
             nextIndex = sentenceIndex st + 1;
             st2 = (if nextIndex < length (availableSentences st)
                    then st1\<lparr>sentenceIndex := nextIndex,
                             currentSentence := Some (availableSentences st ! nextIndex)\<rparr>
                    else loadSentencesFromAPI st None (load env) st1)
         in st2\<lparr>sessionResult := None\<rparr>)
      else if \<not> truthy (sessionId st) then navigate st
      else
        (case complete env of
           Rejected \<Rightarrow> navigate st
         | Resolved completionResult \<Rightarrow>
             (case next_difficulty completionResult of
                Some nd \<Rightarrow>
                  if nd \<noteq> currentDifficulty st then
                    (if confirm env then acceptProgression env nd st else navigate st)
                  else if truthy (progression_message completionResult)
                  then navigate (st\<lparr>alerts := alerts st @ [the (progression_message completionResult)]\<rparr>)
                  else navigate st
              | None \<Rightarrow>
                  if truthy (progression_message completionResult)
                  then navigate (st\<lparr>alerts := alerts st @ [the (progression_message completionResult)]\<rparr>)
                  else navigate st)))"

definition changeLanguage :: "string \<Rightarrow> state \<Rightarrow> state" where
  "changeLanguage newLanguage st = st\<lparr>sessionLanguage := newLanguage\<rparr>"

section \<open>Runs of the component\<close>

text \<open>The events of the component: the mount effect, the sentence reload (the effect on a
  change of language, tier or session, and the reload button), a finished recording, the
  next button and the language selector.\<close>

datatype event =
    Initialize "StartResponse outcome"
  | LoadSentences "Sentence list outcome"
  | ProcessAudio "SessionResult outcome"
  | NextSentence nextSentence_env
  | ChangeLanguage string

fun step :: "state \<Rightarrow> event \<Rightarrow> state" where
  "step st (Initialize out) = initializeSession out st"
| "step st (LoadSentences out) = loadSentencesFromAPI st None out st"
| "step st (ProcessAudio out) = processAudio out st"
| "step st (NextSentence env) = nextSentence env st"
| "step st (ChangeLanguage l) = changeLanguage l st"

definition run :: "string \<Rightarrow> real option \<Rightarrow> event list \<Rightarrow> state" where
  "run contextLanguage wabScore evs = foldl step (initialState contextLanguage wabScore) evs"

section \<open>The clamping of the specification\<close>


section \<open>The counter invariant\<close>

definition progress_inv :: "state \<Rightarrow> bool" where
  "progress_inv st =
     (1 \<le> current (sessionProgress st) \<and>
      current (sessionProgress st) \<le> total (sessionProgress st) \<and>
      total (sessionProgress st) = 10)"

section \<open>Sample sessions\<close>

text \<open>A scoring result with the given accuracy and WAB score.\<close>

definition demoResult :: "real \<Rightarrow> real \<Rightarrow> SessionResult" where
  "demoResult a w =
     \<lparr>transcription = ''hello'', accuracy_r = a, wab_score = w, severity = ''Moderate'',
      feedback = ''ok'', detailed_errors = [], practice_suggestions = [],
      feedback_audio_url = None, word_corrections = None\<rparr>"

text \<open>The session starts on the backend at the easy tier; the sentence request fails, so
  the built-in sentences are used.\<close>

definition demoStart :: "event list" where
  "demoStart =
     [Initialize (Resolved \<lparr>session_id = Some ''s1'', current_difficulty = Some Easy\<rparr>),
      LoadSentences Rejected]"

definition demoState :: state where
  "demoState = run ''en'' None demoStart"

text \<open>The answers met by \<^verbatim>\<open>nextSentence\<close>: the completion call reports the tier \<open>nd\<close>, the
  user answers \<open>c\<close>, the start of a new session answers \<open>s\<close>.\<close>

definition demoEnv ::
  "difficulty option \<Rightarrow> bool \<Rightarrow> StartResponse outcome \<Rightarrow> nextSentence_env" where
  "demoEnv nd c s =
     \<lparr>complete = Resolved \<lparr>next_difficulty = nd, progression_message = None\<rparr>,
      confirm = c, start = s, load = Rejected\<rparr>"

text \<open>Two scored attempts, each followed by the next button: the third attempt is due.\<close>

definition attempt3State :: state where
  "attempt3State =
     run ''en'' None
       (demoStart @
        [ProcessAudio (Resolved (demoResult 80 40)), NextSentence (demoEnv None False Rejected),
         ProcessAudio (Resolved (demoResult 90 40)), NextSentence (demoEnv None False Rejected)])"

text \<open>A whole session of ten attempts with accuracy 80 and WAB score 40: the mean accuracy
  is 80 and the tier stays easy.\<close>

definition demoSession :: "event list" where
  "demoSession =
     demoStart
     @ concat (replicate 9 [ProcessAudio (Resolved (demoResult 80 40)),
                            NextSentence (demoEnv None False Rejected)])
     @ [ProcessAudio (Resolved (demoResult 80 40))]"

definition quotaState :: state where
  "quotaState = run ''en'' None demoSession"

section \<open>Double arithmetic\<close>

text \<open>
  The scores are IEEE 754 binary64 numbers. A double is the real number it stands for, and
  the sum, product or quotient of two doubles is the exact result rounded to the nearest
  double, ties to even. \<open>rnd64\<close> is this rounding for the normal range (53 significant
  bits; scores and their sums are far from overflow and from the subnormal numbers):
  the magnitude is scaled by powers of two into the interval from \<open>2^52\<close> up to \<open>2^53\<close>,
  rounded there to the nearest integer, and scaled back.
\<close>

fun normalise :: "nat \<Rightarrow> real \<Rightarrow> int \<Rightarrow> real \<times> int" where
  "normalise 0 y e = (y, e)"
| "normalise (Suc k) y e =
     (if y < 4503599627370496 then normalise k (2 * y) (e - 1)
      else if 9007199254740992 \<le> y then normalise k (y / 2) (e + 1)
      else (y, e))"

definition nearest_even :: "real \<Rightarrow> int" where
  "nearest_even y =
     (let f = \<lfloor>y\<rfloor>; r = y - of_int f
      in if r < 1 / 2 then f
         else if 1 / 2 < r then f + 1
         else if even f then f else f + 1)"

definition rnd64 :: "real \<Rightarrow> real" where
  "rnd64 x =
     (if x = 0 then 0
      else
        (case normalise 1100 \<bar>x\<bar> 0 of
           (y, e) \<Rightarrow>
             sgn x * of_int (nearest_even y)
             * (if 0 \<le> e then 2 ^ nat e else 1 / 2 ^ nat (- e))))"

section \<open>The attempt handler with its closure and with rounding\<close>

text \<open>
  The recorder calls the \<^verbatim>\<open>processAudio\<close> of the render in which the recording began
  (\<^verbatim>\<open>mediaRecorder.onstop\<close> is set in \<^verbatim>\<open>startRecording\<close>). What the handler reads directly
  (\<^verbatim>\<open>currentSentence\<close>, \<^verbatim>\<open>sessionId\<close>, \<^verbatim>\<open>sessionProgress\<close>, \<^verbatim>\<open>currentDifficulty\<close>) is the state
  \<open>snap\<close> of that render; only the updater of \<^verbatim>\<open>setSessionProgress\<close> sees the latest state
  \<open>st\<close>, and all writes go to the latest state. The arithmetic is that of the source,
  every operation followed by the rounding \<open>rnd\<close>; the counters are small integers, on
  which \<^verbatim>\<open>+ 1\<close> is exact.
\<close>

text \<open>The updater of \<^verbatim>\<open>setSessionProgress\<close>, with rounding.\<close>

definition aggregate_rounded ::
  "(real \<Rightarrow> real) \<Rightarrow> SessionResult \<Rightarrow> SessionProgress \<Rightarrow> SessionProgress" where
  "aggregate_rounded rnd result prev =
     prev\<lparr>completed := completed prev + 1,
          accuracy := rnd (rnd (rnd (accuracy prev * real (completed prev)) + accuracy_r result)
                           / real (completed prev + 1)),
          totalWabScore := rnd (totalWabScore prev + wab_score result)\<rparr>"

text \<open>\<^verbatim>\<open>(sessionProgress.totalWabScore + newWabScore) / (sessionProgress.completed + 1)\<close>\<close>

definition avgWabScore :: "(real \<Rightarrow> real) \<Rightarrow> SessionProgress \<Rightarrow> real \<Rightarrow> real" where
  "avgWabScore rnd progress newWabScore =
     rnd (rnd (totalWabScore progress + newWabScore) / real (completed progress + 1))"

definition processAudio_closure ::
  "(real \<Rightarrow> real) \<Rightarrow> state \<Rightarrow> SessionResult outcome \<Rightarrow> state \<Rightarrow> state" where
  "processAudio_closure rnd snap out st =
     (if currentSentence snap = None \<or> \<not> truthy (sessionId snap) then st
      else
        (case out of
           Resolved result \<Rightarrow>
             (let newWabScore = wab_score result;
                  newDifficulty =
                    getDifficultyFromWabScore (avgWabScore rnd (sessionProgress snap) newWabScore);
                  st1 = st\<lparr>sessionResult := Some result,
                           userWabScore := newWabScore,
                           sessionProgress := aggregate_rounded rnd result (sessionProgress st)\<rparr>;
                  st2 = (if newDifficulty \<noteq> currentDifficulty snap
                         then st1\<lparr>currentDifficulty := newDifficulty\<rparr> else st1)
              in st2\<lparr>isProcessing := False\<rparr>)
         | Rejected \<Rightarrow>
             st\<lparr>sessionResult := Some errorResult,
                alerts := alerts st @ [processAudio_alert],
                isProcessing := False\<rparr>))"




text \<open>The state in which the user has accepted the medium tier at the end of the sample
  session.\<close>

definition acceptedState :: state where
  "acceptedState = nextSentence (demoEnv (Some Medium) True Rejected) quotaState"

text \<open>Scoring results with the given accuracies, each with WAB score 40.\<close>

definition demoResults :: "real list \<Rightarrow> SessionResult list" where
  "demoResults as = map (\<lambda>a. demoResult a 40) as"

section \<open>Properties of the classifier\<close>

text \<open>
  Claim C1. The classifier maps a score to a tier by fixed thresholds that are inclusive
  on the lower bound of each band: a score of at least 76 is hard, a score of at least 51
  and below 76 is medium, a score below 51 is easy. In particular 51 is medium, 50.999 is
  easy, 76 is hard and 75.999 is medium.
\<close>

theorem classifier_thresholds:
  "(s \<ge> 76 \<longrightarrow> getDifficultyFromWabScore s = Hard) \<and>
   (51 \<le> s \<and> s < 76 \<longrightarrow> getDifficultyFromWabScore s = Medium) \<and>
   (s < 51 \<longrightarrow> getDifficultyFromWabScore s = Easy) \<and>
   getDifficultyFromWabScore 51 = Medium \<and>
   getDifficultyFromWabScore (50999 / 1000) = Easy \<and>
   getDifficultyFromWabScore 76 = Hard \<and>
   getDifficultyFromWabScore (75999 / 1000) = Medium"
  by (simp add: getDifficultyFromWabScore_def)

theorem classifier_thresholds_witness:
  "(80::real) \<ge> 76 \<and> getDifficultyFromWabScore 80 = Hard \<and>
   (51::real) \<le> 60 \<and> (60::real) < 76 \<and> getDifficultyFromWabScore 60 = Medium \<and>
   (10::real) < 51 \<and> getDifficultyFromWabScore 10 = Easy"
proof -
  have hard: "getDifficultyFromWabScore 80 = Hard"
    using classifier_thresholds [of 80] by simp
  have medium: "getDifficultyFromWabScore 60 = Medium"
    using classifier_thresholds [of 60] by simp
  have easy: "getDifficultyFromWabScore 10 = Easy"
    using classifier_thresholds [of 10] by simp
  from hard medium easy show ?thesis by simp
qed

text \<open>
  Claim C8. The classifier is a function of the score alone and is monotonic: for scores
  \<open>a \<le> b\<close> the tier of \<open>a\<close> is at most the tier of \<open>b\<close> in the order easy, medium, hard.
\<close>

theorem classifier_monotonic:
  "a \<le> b \<Longrightarrow>
   tier_rank (getDifficultyFromWabScore a) \<le> tier_rank (getDifficultyFromWabScore b)"
  by (simp add: getDifficultyFromWabScore_def)

theorem classifier_monotonic_witness:
  "(50999 / 1000 :: real) \<le> 51 \<and>
   tier_rank (getDifficultyFromWabScore (50999 / 1000)) \<le> tier_rank (getDifficultyFromWabScore 51)"
proof -
  have le: "(50999 / 1000 :: real) \<le> 51" by simp
  from le classifier_monotonic [OF le] show ?thesis by simp
qed

section \<open>Frame lemmas\<close>


lemma aggregate_fields:
  "completed (aggregate result prev) = completed prev + 1"
  "accuracy (aggregate result prev) =
     (accuracy prev * real (completed prev) + accuracy_r result) / (real (completed prev) + 1)"
  "totalWabScore (aggregate result prev) = totalWabScore prev + wab_score result"
  "current (aggregate result prev) = current prev"
  "total (aggregate result prev) = total prev"
  by (simp_all add: aggregate_def add.commute)

lemma initializeSession_progress:
  "sessionProgress (initializeSession out st) = sessionProgress st"
  by (simp add: initializeSession_def Let_def split: outcome.splits option.splits)

lemma loadFallbackSentences_frame:
  "sessionProgress (loadFallbackSentences snap st) = sessionProgress st"
  "currentDifficulty (loadFallbackSentences snap st) = currentDifficulty st"
  by (simp_all add: loadFallbackSentences_def Let_def)

lemma loadSentencesFromAPI_frame:
  "sessionProgress (loadSentencesFromAPI snap d out st) = sessionProgress st"
  "currentDifficulty (loadSentencesFromAPI snap d out st) = currentDifficulty st"
  by (simp_all add: loadSentencesFromAPI_def loadFallbackSentences_frame Let_def
      split: outcome.splits)

lemma acceptProgression_tier:
  "currentDifficulty (acceptProgression env nd st) =
     (case start env of
        Resolved response \<Rightarrow> (case current_difficulty response of Some d \<Rightarrow> d | None \<Rightarrow> nd)
      | Rejected \<Rightarrow> nd)"
  by (simp add: acceptProgression_def loadSentencesFromAPI_frame initializeSession_def Let_def
      split: outcome.splits option.splits)

lemma acceptProgression_progress:
  "sessionProgress (acceptProgression env nd st) = initialProgress"
  by (simp add: acceptProgression_def loadSentencesFromAPI_frame initializeSession_progress
      initialProgress_def Let_def)

section \<open>The sample sessions, evaluated\<close>

lemmas handler_defs =
  run_def initialState_def initialProgress_def initializeSession_def loadSentencesFromAPI_def
  loadFallbackSentences_def mockSentences_def processAudio_def aggregate_def
  getDifficultyFromWabScore_def nextSentence_def navigate_def acceptProgression_def
  demoStart_def demoResult_def demoEnv_def

lemma demoState_ready:
  "currentSentence demoState \<noteq> None" "truthy (sessionId demoState)"
  by (simp_all add: demoState_def handler_defs)

lemma demoState_fields:
  "sessionProgress demoState = initialProgress" "currentDifficulty demoState = Easy"
  by (simp_all add: demoState_def handler_defs)

lemma attempt3State_ready:
  "currentSentence attempt3State \<noteq> None" "truthy (sessionId attempt3State)"
  by (simp_all add: attempt3State_def handler_defs)

lemma attempt3State_progress:
  "sessionProgress attempt3State =
     \<lparr>current = 3, total = 10, completed = 2, accuracy = 85, totalWabScore = 80\<rparr>"
  by (simp add: attempt3State_def handler_defs)

lemma quotaState_ready:
  "currentSentence quotaState \<noteq> None" "truthy (sessionId quotaState)"
  by (simp_all add: quotaState_def demoSession_def handler_defs eval_nat_numeral)

lemma quotaState_fields:
  "sessionProgress quotaState =
     \<lparr>current = 10, total = 10, completed = 10, accuracy = 80, totalWabScore = 400\<rparr>"
  "currentDifficulty quotaState = Easy"
  by (simp_all add: quotaState_def demoSession_def handler_defs eval_nat_numeral)

section \<open>The score aggregator\<close>






section \<open>The running mean in double arithmetic\<close>


lemma processAudio_closure_tier:
  assumes "currentSentence snap \<noteq> None" and "truthy (sessionId snap)"
  shows "currentDifficulty (processAudio_closure rnd snap (Resolved result) st) =
           (if getDifficultyFromWabScore (avgWabScore rnd (sessionProgress snap) (wab_score result))
               \<noteq> currentDifficulty snap
            then getDifficultyFromWabScore (avgWabScore rnd (sessionProgress snap) (wab_score result))
            else currentDifficulty st)"
  using assms by (auto simp add: processAudio_closure_def Let_def)

lemma processAudio_closure_exact:
  "processAudio_closure (\<lambda>x. x) st out st = processAudio out st"
  by (cases out)
     (auto simp add: processAudio_closure_def processAudio_def aggregate_rounded_def
        aggregate_def avgWabScore_def Let_def)

lemma aggregate_rounded_exact: "aggregate_rounded (\<lambda>x. x) result prev = aggregate result prev"
  by (simp add: aggregate_rounded_def aggregate_def)

text \<open>What a failed scoring call and the counters show on the exact handler holds for
  every closure and every rounding.\<close>

lemma processAudio_closure_rejected:
  "sessionProgress (processAudio_closure rnd snap Rejected st) = sessionProgress st"
  "currentSentence (processAudio_closure rnd snap Rejected st) = currentSentence st"
  "currentDifficulty (processAudio_closure rnd snap Rejected st) = currentDifficulty st"
  by (simp_all add: processAudio_closure_def)

lemma processAudio_closure_counters:
  "current (sessionProgress (processAudio_closure rnd snap out st)) = current (sessionProgress st)"
  "total (sessionProgress (processAudio_closure rnd snap out st)) = total (sessionProgress st)"
  by (simp_all add: processAudio_closure_def aggregate_rounded_def Let_def split: outcome.splits)









lemma fold_exact_a:
  "foldl (\<lambda>p r. aggregate_rounded rnd64 r p) initialProgress (demoResults [80, 90, 70])
   = \<lparr>current = 1, total = 10, completed = 3, accuracy = 80, totalWabScore = 120\<rparr>"
proof -
  have s1: "aggregate_rounded rnd64 (demoResult 80 40)
      \<lparr>current = 1, total = 10, completed = 0, accuracy = 0, totalWabScore = 0\<rparr>
    = \<lparr>current = 1, total = 10, completed = 1, accuracy = 80, totalWabScore = 40\<rparr>"
    by (simp add: aggregate_rounded_def demoResult_def rnd64_def nearest_even_def eval_nat_numeral)
  have s2: "aggregate_rounded rnd64 (demoResult 90 40)
      \<lparr>current = 1, total = 10, completed = 1, accuracy = 80, totalWabScore = 40\<rparr>
    = \<lparr>current = 1, total = 10, completed = 2, accuracy = 85, totalWabScore = 80\<rparr>"
    by (simp add: aggregate_rounded_def demoResult_def rnd64_def nearest_even_def eval_nat_numeral)
  have s3: "aggregate_rounded rnd64 (demoResult 70 40)
      \<lparr>current = 1, total = 10, completed = 2, accuracy = 85, totalWabScore = 80\<rparr>
    = \<lparr>current = 1, total = 10, completed = 3, accuracy = 80, totalWabScore = 120\<rparr>"
    by (simp add: aggregate_rounded_def demoResult_def rnd64_def nearest_even_def eval_nat_numeral)
  show ?thesis
    unfolding demoResults_def initialProgress_def list.map foldl.simps s1 s2 s3 ..
qed

lemma fold_exact_b:
  "foldl (\<lambda>p r. aggregate_rounded rnd64 r p) initialProgress (demoResults [70, 80, 90])
   = \<lparr>current = 1, total = 10, completed = 3, accuracy = 80, totalWabScore = 120\<rparr>"
proof -
  have s1: "aggregate_rounded rnd64 (demoResult 70 40)
      \<lparr>current = 1, total = 10, completed = 0, accuracy = 0, totalWabScore = 0\<rparr>
    = \<lparr>current = 1, total = 10, completed = 1, accuracy = 70, totalWabScore = 40\<rparr>"
    by (simp add: aggregate_rounded_def demoResult_def rnd64_def nearest_even_def eval_nat_numeral)
  have s2: "aggregate_rounded rnd64 (demoResult 80 40)
      \<lparr>current = 1, total = 10, completed = 1, accuracy = 70, totalWabScore = 40\<rparr>
    = \<lparr>current = 1, total = 10, completed = 2, accuracy = 75, totalWabScore = 80\<rparr>"
    by (simp add: aggregate_rounded_def demoResult_def rnd64_def nearest_even_def eval_nat_numeral)
  have s3: "aggregate_rounded rnd64 (demoResult 90 40)
      \<lparr>current = 1, total = 10, completed = 2, accuracy = 75, totalWabScore = 80\<rparr>
    = \<lparr>current = 1, total = 10, completed = 3, accuracy = 80, totalWabScore = 120\<rparr>"
    by (simp add: aggregate_rounded_def demoResult_def rnd64_def nearest_even_def eval_nat_numeral)
  show ?thesis
    unfolding demoResults_def initialProgress_def list.map foldl.simps s1 s2 s3 ..
qed






section \<open>The progression controller\<close>



lemma acceptedState_tier: "currentDifficulty acceptedState = Medium"
  by (simp add: acceptedState_def nextSentence_def quotaState_fields quotaState_ready
      demoEnv_def acceptProgression_tier)

text \<open>
  Claim C4, as stated, fails: a scored attempt changes the tier at once. On the fresh
  session at the easy tier an attempt with WAB score 90 is classified hard, and the
  handler, which asks for no confirmation, leaves the tier at hard.
\<close>

theorem tier_auto_adjusted_counterexample:
  "currentDifficulty demoState = Easy \<and>
   getDifficultyFromWabScore
     (avgWabScore rnd64 (sessionProgress demoState) (wab_score (demoResult 90 90))) = Hard \<and>
   currentDifficulty (processAudio_closure rnd64 demoState (Resolved (demoResult 90 90)) demoState)
     = Hard"
proof -
  have cls: "getDifficultyFromWabScore
               (avgWabScore rnd64 (sessionProgress demoState) (wab_score (demoResult 90 90))) = Hard"
    by (simp add: demoState_fields initialProgress_def demoResult_def avgWabScore_def
        getDifficultyFromWabScore_def rnd64_def nearest_even_def eval_nat_numeral)
  with processAudio_closure_tier [OF demoState_ready, of rnd64 "demoResult 90 90" demoState]
  show ?thesis by (simp add: demoState_fields)
qed

text \<open>
  Claim C4, as amended. For every attempt that is scored, where the render in which its
  recording began had a sentence and a session id, the handler classifies the average
  WAB score computed from the progress of that render and this attempt; when the
  classified tier differs from the tier of that render, the controller sets the current
  tier to it at once, with no confirmation, and otherwise it leaves the current tier as
  it is. So when the tier has not changed since the recording began, the tier after the
  attempt is the classified tier. An attempt whose scoring call fails leaves the tier
  unchanged. This holds for every rounding of the arithmetic, that of doubles included.
\<close>

theorem attempt_sets_classified_tier:
  assumes "currentSentence snap \<noteq> None" and "truthy (sessionId snap)"
  shows "currentDifficulty (processAudio_closure rnd snap (Resolved result) st) =
           (if getDifficultyFromWabScore (avgWabScore rnd (sessionProgress snap) (wab_score result))
               \<noteq> currentDifficulty snap
            then getDifficultyFromWabScore (avgWabScore rnd (sessionProgress snap) (wab_score result))
            else currentDifficulty st) \<and>
         (currentDifficulty st = currentDifficulty snap \<longrightarrow>
            currentDifficulty (processAudio_closure rnd snap (Resolved result) st) =
              getDifficultyFromWabScore (avgWabScore rnd (sessionProgress snap) (wab_score result))) \<and>
         currentDifficulty (processAudio_closure rnd snap Rejected st) = currentDifficulty st"
  using assms by (auto simp add: processAudio_closure_def Let_def)

theorem attempt_sets_classified_tier_witness:
  "currentSentence quotaState \<noteq> None \<and> truthy (sessionId quotaState) \<and>
   currentDifficulty quotaState = Easy \<and>
   currentDifficulty acceptedState = Medium \<and>
   getDifficultyFromWabScore
     (avgWabScore rnd64 (sessionProgress quotaState) (wab_score (demoResult 80 90))) = Easy \<and>
   currentDifficulty
     (processAudio_closure rnd64 quotaState (Resolved (demoResult 80 90)) acceptedState) = Medium \<and>
   currentSentence attempt3State \<noteq> None \<and> truthy (sessionId attempt3State) \<and>
   currentDifficulty
     (processAudio_closure rnd64 attempt3State (Resolved (demoResult 70 100)) attempt3State)
     = Medium"
proof -
  have stale: "getDifficultyFromWabScore
                 (avgWabScore rnd64 (sessionProgress quotaState) (wab_score (demoResult 80 90)))
               = Easy"
    by (simp add: quotaState_fields demoResult_def avgWabScore_def
        getDifficultyFromWabScore_def rnd64_def nearest_even_def eval_nat_numeral)
  have fresh: "getDifficultyFromWabScore
                 (avgWabScore rnd64 (sessionProgress attempt3State) (wab_score (demoResult 70 100)))
               = Medium"
    by (simp add: attempt3State_progress demoResult_def avgWabScore_def
        getDifficultyFromWabScore_def rnd64_def nearest_even_def eval_nat_numeral)
  have late: "currentDifficulty
                (processAudio_closure rnd64 quotaState (Resolved (demoResult 80 90)) acceptedState)
              = Medium"
    using attempt_sets_classified_tier
            [OF quotaState_ready, of rnd64 "demoResult 80 90" acceptedState]
          stale
    by (simp add: quotaState_fields acceptedState_tier)
  have same: "currentDifficulty
                (processAudio_closure rnd64 attempt3State (Resolved (demoResult 70 100))
                   attempt3State)
              = Medium"
    using attempt_sets_classified_tier
            [OF attempt3State_ready, of rnd64 "demoResult 70 100" attempt3State]
          fresh
    by simp
  from stale late same quotaState_ready attempt3State_ready quotaState_fields(2)
       acceptedState_tier
  show ?thesis by (simp only: simp_thms)
qed

text \<open>
  Claim C5, as stated, fails: the tier reported by the completion call is offered to the
  user, and a declined offer is not adopted. At the end of the sample session the tier is
  easy with mean accuracy 80; the completion call reports medium, the user declines, and
  the tier is still easy.
\<close>

theorem server_tier_declined_counterexample:
  "currentDifficulty quotaState = Easy \<and>
   accuracy (sessionProgress quotaState) = 80 \<and>
   complete (demoEnv (Some Medium) False Rejected)
     = Resolved \<lparr>next_difficulty = Some Medium, progression_message = None\<rparr> \<and>
   currentDifficulty (nextSentence (demoEnv (Some Medium) False Rejected) quotaState) = Easy"
  by (simp add: quotaState_fields quotaState_ready nextSentence_def navigate_def demoEnv_def)

text \<open>
  Claim C5, as amended. When the session is at its quota and the completion call reports a
  tier that differs from the current one, the controller adopts a server-reported tier
  only if the user confirms: it then sets the current tier to the reported tier and starts
  a new session, and the tier returned by that start, when there is one, is the tier it
  holds. If the user declines, the current tier is unchanged.
\<close>

theorem server_tier_adopted_on_confirm:
  assumes "\<not> current (sessionProgress st) < total (sessionProgress st)"
    and "truthy (sessionId st)"
    and "complete env = Resolved completionResult"
    and "next_difficulty completionResult = Some nd"
    and "nd \<noteq> currentDifficulty st"
  shows "currentDifficulty (nextSentence env st) =
           (if confirm env then
              (case start env of
                 Resolved response \<Rightarrow>
                   (case current_difficulty response of Some d \<Rightarrow> d | None \<Rightarrow> nd)
               | Rejected \<Rightarrow> nd)
            else currentDifficulty st)"
  using assms by (simp add: nextSentence_def navigate_def acceptProgression_tier)

theorem server_tier_adopted_on_confirm_witness:
  "\<not> current (sessionProgress quotaState) < total (sessionProgress quotaState) \<and>
   truthy (sessionId quotaState) \<and>
   complete (demoEnv (Some Medium) True
      (Resolved \<lparr>session_id = Some ''s2'', current_difficulty = Some Medium\<rparr>))
     = Resolved \<lparr>next_difficulty = Some Medium, progression_message = None\<rparr> \<and>
   next_difficulty \<lparr>next_difficulty = Some Medium, progression_message = None\<rparr> = Some Medium \<and>
   Medium \<noteq> currentDifficulty quotaState \<and>
   currentDifficulty (nextSentence (demoEnv (Some Medium) True
      (Resolved \<lparr>session_id = Some ''s2'', current_difficulty = Some Medium\<rparr>)) quotaState)
     = Medium"
proof -
  let ?env = "demoEnv (Some Medium) True
      (Resolved \<lparr>session_id = Some ''s2'', current_difficulty = Some Medium\<rparr>)"
  let ?r = "\<lparr>next_difficulty = Some Medium, progression_message = None\<rparr>"
  have h1: "\<not> current (sessionProgress quotaState) < total (sessionProgress quotaState)"
    by (simp add: quotaState_fields)
  have h2: "truthy (sessionId quotaState)" by (rule quotaState_ready)
  have h3: "complete ?env = Resolved ?r" by (simp add: demoEnv_def)
  have h4: "next_difficulty ?r = Some Medium" by simp
  have h5: "Medium \<noteq> currentDifficulty quotaState" by (simp add: quotaState_fields)
  have "currentDifficulty (nextSentence ?env quotaState) = Medium"
    using server_tier_adopted_on_confirm [OF h1 h2 h3 h4 h5] by (simp add: demoEnv_def)
  with h1 h2 h3 h4 h5 show ?thesis by (simp only: simp_thms)
qed

text \<open>
  Claim C9. When the user declines the tier transition offered at the completion of the
  session, the current tier is unchanged: it is the tier held before the offer.
\<close>

theorem decline_keeps_tier:
  assumes "\<not> confirm env"
  shows "currentDifficulty (nextSentence env st) = currentDifficulty st"
  using assms
  by (simp add: nextSentence_def navigate_def loadSentencesFromAPI_frame Let_def
      split: outcome.splits option.splits)

theorem decline_keeps_tier_witness:
  "\<not> confirm (demoEnv (Some Hard) False Rejected) \<and>
   \<not> current (sessionProgress quotaState) < total (sessionProgress quotaState) \<and>
   next_difficulty \<lparr>next_difficulty = Some Hard, progression_message = None\<rparr>
     \<noteq> Some (currentDifficulty quotaState) \<and>
   currentDifficulty (nextSentence (demoEnv (Some Hard) False Rejected) quotaState) = Easy"
proof -
  have declined: "\<not> confirm (demoEnv (Some Hard) False Rejected)"
    by (simp add: demoEnv_def)
  from decline_keeps_tier [OF declined, of quotaState] declined show ?thesis
    by (simp add: quotaState_fields)
qed

section \<open>The sentence counter\<close>

lemma progress_inv_initial: "progress_inv (initialState l w)"
  by (simp add: progress_inv_def initialState_def initialProgress_def)

lemma processAudio_counters:
  "current (sessionProgress (processAudio out st)) = current (sessionProgress st)"
  "total (sessionProgress (processAudio out st)) = total (sessionProgress st)"
  by (simp_all add: processAudio_def Let_def aggregate_fields split: outcome.splits)

lemma nextSentence_progress:
  "sessionProgress (nextSentence env st) =
     (if current (sessionProgress st) < total (sessionProgress st)
      then (sessionProgress st)\<lparr>current := current (sessionProgress st) + 1\<rparr>
      else if truthy (sessionId st) \<and> confirm env \<and>
              (\<exists>r nd. complete env = Resolved r \<and> next_difficulty r = Some nd \<and>
                      nd \<noteq> currentDifficulty st)
      then initialProgress
      else sessionProgress st)"
  by (auto simp add: nextSentence_def navigate_def loadSentencesFromAPI_frame
      acceptProgression_progress Let_def split: outcome.splits option.splits)

lemma progress_inv_step: "progress_inv st \<Longrightarrow> progress_inv (step st e)"
proof (cases e)
  case (Initialize out)
  assume "progress_inv st"
  with Initialize show ?thesis by (simp add: progress_inv_def initializeSession_progress)
next
  case (LoadSentences out)
  assume "progress_inv st"
  with LoadSentences show ?thesis by (simp add: progress_inv_def loadSentencesFromAPI_frame)
next
  case (ProcessAudio out)
  assume "progress_inv st"
  with ProcessAudio show ?thesis by (simp add: progress_inv_def processAudio_counters)
next
  case (NextSentence env)
  assume "progress_inv st"
  with NextSentence show ?thesis
    by (simp add: progress_inv_def nextSentence_progress initialProgress_def)
next
  case (ChangeLanguage l)
  assume "progress_inv st"
  with ChangeLanguage show ?thesis by (simp add: progress_inv_def changeLanguage_def)
qed

lemma progress_inv_foldl: "progress_inv st \<Longrightarrow> progress_inv (foldl step st evs)"
  by (induction evs arbitrary: st) (simp_all add: progress_inv_step)

text \<open>
  Claim C10. The current-sentence counter never exceeds the quota of the session: from
  \<open>current = 1\<close> and \<open>total = 10\<close> at mount, after every sequence of operations of the
  component \<open>1 \<le> current \<le> total\<close> holds (and the quota is still 10), and a press of the
  next button increments the counter exactly when it is below the quota.
\<close>

theorem current_within_quota:
  "1 \<le> current (sessionProgress (run l w evs)) \<and>
   current (sessionProgress (run l w evs)) \<le> total (sessionProgress (run l w evs)) \<and>
   total (sessionProgress (run l w evs)) = 10 \<and>
   (current (sessionProgress (nextSentence env (run l w evs)))
      = current (sessionProgress (run l w evs)) + 1
    \<longleftrightarrow> current (sessionProgress (run l w evs)) < total (sessionProgress (run l w evs)))"
proof -
  have inv: "progress_inv (run l w evs)"
    unfolding run_def by (rule progress_inv_foldl) (rule progress_inv_initial)
  then show ?thesis
    by (auto simp add: progress_inv_def nextSentence_progress initialProgress_def)
qed

theorem current_within_quota_witness:
  "1 \<le> current (sessionProgress (run ''en'' None demoSession)) \<and>
   current (sessionProgress (run ''en'' None demoSession))
     \<le> total (sessionProgress (run ''en'' None demoSession)) \<and>
   current (sessionProgress (run ''en'' None demoSession)) = 10 \<and>
   current (sessionProgress
      (nextSentence (demoEnv (Some Medium) True Rejected) (run ''en'' None demoSession)))
     \<noteq> current (sessionProgress (run ''en'' None demoSession)) + 1"
proof -
  have at_quota: "current (sessionProgress (run ''en'' None demoSession)) = 10"
    using quotaState_fields by (simp add: quotaState_def)
  from current_within_quota [of "''en''" None demoSession "demoEnv (Some Medium) True Rejected"]
  have "1 \<le> current (sessionProgress (run ''en'' None demoSession))"
    and "current (sessionProgress (run ''en'' None demoSession))
         \<le> total (sessionProgress (run ''en'' None demoSession))"
    and "total (sessionProgress (run ''en'' None demoSession)) = 10"
    and "current (sessionProgress
           (nextSentence (demoEnv (Some Medium) True Rejected) (run ''en'' None demoSession)))
         = current (sessionProgress (run ''en'' None demoSession)) + 1
         \<longleftrightarrow> current (sessionProgress (run ''en'' None demoSession))
             < total (sessionProgress (run ''en'' None demoSession))"
    by blast+
  with at_quota show ?thesis by simp
qed

end
